theory Spec2Isabelle
  imports Main
begin

section \<open>Python values and strings\<close>

text \<open>
  The values that flow through the configuration layer are the ones \<open>json.load\<close> and
  \<open>argparse\<close> produce: \<open>None\<close>, booleans, integers, floats, strings, lists and
  dictionaries with string keys. No function of the repository computes with a float, so a
  float is carried as the pair (mantissa, binary exponent) and never inspected beyond its
  truth value. A dictionary is an association list read with \<open>map_of\<close>.
  A \<open>string\<close> stands for a Python \<open>str\<close> whose code points are below 256.
\<close>

datatype pyval =
    PNone
  | PBool bool
  | PInt int
  | PFloat int int
  | PStr string
  | PList "pyval list"
  | PDict "(string \<times> pyval) list"

text \<open>Truth value of an object, as \<open>if x:\<close> tests it.\<close>

fun truthy :: "pyval \<Rightarrow> bool" where
  "truthy PNone = False"
| "truthy (PBool b) = b"
| "truthy (PInt i) = (i \<noteq> 0)"
| "truthy (PFloat m e) = (m \<noteq> 0)"
| "truthy (PStr s) = (s \<noteq> [])"
| "truthy (PList xs) = (xs \<noteq> [])"
| "truthy (PDict kvs) = (kvs \<noteq> [])"

text \<open>\<open>str.split(sep)\<close> for a one-character separator: \<open>''''.split('.')\<close> is \<open>['''']\<close>.\<close>

fun split_on :: "char \<Rightarrow> string \<Rightarrow> string list" where
  "split_on sep [] = [[]]"
| "split_on sep (c # cs) =
     (if c = sep then [] # split_on sep cs
      else (case split_on sep cs of
              [] \<Rightarrow> [[c]]
            | w # ws \<Rightarrow> (c # w) # ws))"

section \<open>loader.py: dotted lookup\<close>

text \<open>
  \<open>value[key]\<close> with a string key: a dictionary gives the entry or raises \<open>KeyError\<close>,
  every other object raises \<open>TypeError\<close>. \<open>get_default_config_value\<close> catches exactly
  these two, so \<open>None\<close> stands for either.
\<close>

fun getitem :: "pyval \<Rightarrow> string \<Rightarrow> pyval option" where
  "getitem (PDict kvs) key = map_of kvs key"
| "getitem _ key = None"

text \<open>The loop \<open>for key in keys: value = value[key]\<close>.\<close>

fun walk_keys :: "pyval \<Rightarrow> string list \<Rightarrow> pyval option" where
  "walk_keys v [] = Some v"
| "walk_keys v (key # keys) =
     (case getitem v key of
        None \<Rightarrow> None
      | Some v' \<Rightarrow> walk_keys v' keys)"

definition get_default_config_value :: "pyval \<Rightarrow> string \<Rightarrow> pyval \<Rightarrow> pyval" where
  "get_default_config_value config key_path dflt =
     (case walk_keys config (split_on (CHR ''.'') key_path) of
        Some v \<Rightarrow> v
      | None \<Rightarrow> dflt)"

section \<open>platform.py: the three-tier resolution\<close>

text \<open>
  \<open>Platform._resolve_config_value\<close>; \<open>self.config\<close> is passed as the first argument.
  The lookup is called without a default, so a missing path yields \<open>None\<close>, and the
  result is used only when it \<open>is not None\<close>.
\<close>

definition resolve_config_value ::
  "pyval \<Rightarrow> string \<Rightarrow> (string \<rightharpoonup> pyval) \<Rightarrow> string \<Rightarrow> pyval \<Rightarrow> pyval" where
  "resolve_config_value config param_name kwargs config_key default_value =
     (case kwargs param_name of
        Some v \<Rightarrow> v
      | None \<Rightarrow>
          (let config_value = get_default_config_value config config_key PNone
           in if config_value \<noteq> PNone then config_value else default_value))"

section \<open>Strings\<close>

text \<open>
  \<open>str.strip()\<close> removes the characters for which \<open>str.isspace\<close> holds from both
  ends. Below code point 256 these are tab, line feed, vertical tab, form feed, carriage
  return, the four separators 0x1C to 0x1F, space, 0x85 and the no-break space 0xA0.
\<close>

definition py_isspace :: "char \<Rightarrow> bool" where
  "py_isspace c = (c \<in> set [CHR 0x09, CHR 0x0A, CHR 0x0B, CHR 0x0C, CHR 0x0D,
      CHR 0x1C, CHR 0x1D, CHR 0x1E, CHR 0x1F, CHR 0x20, CHR 0x85, CHR 0xA0])"

definition lstrip :: "string \<Rightarrow> string" where
  "lstrip s = dropWhile py_isspace s"

definition rstrip :: "string \<Rightarrow> string" where
  "rstrip s = rev (dropWhile py_isspace (rev s))"

definition strip :: "string \<Rightarrow> string" where
  "strip s = rstrip (lstrip s)"

text \<open>\<open>sep.join(xs)\<close>.\<close>

fun join :: "string \<Rightarrow> string list \<Rightarrow> string" where
  "join sep [] = []"
| "join sep [x] = x"
| "join sep (x # y # ys) = x @ sep @ join sep (y # ys)"

text \<open>
  \<open>str.upper()\<close> and \<open>str.capitalize()\<close> on the ASCII letters; every string the program
  passes to them is a registry key. Other characters are left as they are.
\<close>

definition upper_char :: "char \<Rightarrow> char" where
  "upper_char c =
     (case map_of (zip ''abcdefghijklmnopqrstuvwxyz'' ''ABCDEFGHIJKLMNOPQRSTUVWXYZ'') c of
        Some u \<Rightarrow> u
      | None \<Rightarrow> c)"

definition lower_char :: "char \<Rightarrow> char" where
  "lower_char c =
     (case map_of (zip ''ABCDEFGHIJKLMNOPQRSTUVWXYZ'' ''abcdefghijklmnopqrstuvwxyz'') c of
        Some l \<Rightarrow> l
      | None \<Rightarrow> c)"

definition upper :: "string \<Rightarrow> string" where
  "upper s = map upper_char s"

definition capitalize :: "string \<Rightarrow> string" where
  "capitalize s = (case s of [] \<Rightarrow> [] | c # cs \<Rightarrow> upper_char c # map lower_char cs)"

text \<open>\<open>repr\<close> of a string without quotes, backslashes or control characters, and of a list of such.\<close>

definition repr_str :: "string \<Rightarrow> string" where
  "repr_str s = CHR 0x27 # s @ [CHR 0x27]"

definition repr_str_list :: "string list \<Rightarrow> string" where
  "repr_str_list xs = ''['' @ join '', '' (map repr_str xs) @ '']''"

text \<open>\<open>str(n)\<close> for a natural number.\<close>

fun str_nat :: "nat \<Rightarrow> string" where
  "str_nat n =
     (if n < 10 then [''0123456789'' ! n]
      else str_nat (n div 10) @ [''0123456789'' ! (n mod 10)])"

declare str_nat.simps [simp del]

text \<open>
  \<open>int(s)\<close> in base 10: surrounding whitespace is dropped, one sign is allowed, then
  decimal digits, with single underscores allowed between two digits; a string of more
  than 4300 digits (the interpreter's default limit) is refused. \<open>None\<close> is
  \<open>ValueError\<close>.
\<close>

definition is_digit :: "char \<Rightarrow> bool" where
  "is_digit c = (c \<in> set ''0123456789'')"

definition digit_val :: "char \<Rightarrow> nat" where
  "digit_val c = (case map_of (zip ''0123456789'' [0, 1, 2, 3, 4, 5, 6, 7, 8, 9]) c of
                    Some d \<Rightarrow> d
                  | None \<Rightarrow> 0)"

fun digits_value :: "nat \<Rightarrow> string \<Rightarrow> nat option" where
  "digits_value acc [] = Some acc"
| "digits_value acc [c] = (if is_digit c then Some (10 * acc + digit_val c) else None)"
| "digits_value acc (c # d # cs) =
     (if is_digit c then digits_value (10 * acc + digit_val c) (d # cs)
      else if c = CHR ''_'' \<and> is_digit d then digits_value acc (d # cs)
      else None)"

definition parse_digits :: "string \<Rightarrow> nat option" where
  "parse_digits s =
     (case s of
        [] \<Rightarrow> None
      | c # cs \<Rightarrow>
          if is_digit c \<and> length (filter is_digit s) \<le> 4300 then digits_value 0 s else None)"

definition py_int :: "string \<Rightarrow> int option" where
  "py_int s =
     (case strip s of
        [] \<Rightarrow> None
      | c # cs \<Rightarrow>
          if c = CHR ''-'' then map_option (\<lambda>n. - int n) (parse_digits cs)
          else if c = CHR ''+'' then map_option int (parse_digits cs)
          else map_option int (parse_digits (c # cs)))"

text \<open>
  \<open>template.format(platform=p)\<close> on the templates made of literal text, the escapes
  \<open>{{\<close> and \<open>}}\<close> and the field \<open>{platform}\<close>. \<open>None\<close>: the template has something else
  (another field name, a conversion, a format specification, a lone brace).
\<close>

fun simple_format :: "string \<Rightarrow> string \<Rightarrow> string option" where
  "simple_format [] p = Some []"
| "simple_format (c # cs) p =
     (if c = CHR ''{'' then
        (case cs of
           [] \<Rightarrow> None
         | d # ds \<Rightarrow>
             if d = CHR ''{'' then map_option ((#) (CHR ''{'')) (simple_format ds p)
             else if take 9 cs = ''platform}'' then map_option ((@) p) (simple_format (drop 9 cs) p)
             else None)
      else if c = CHR ''}'' then
        (case cs of
           [] \<Rightarrow> None
         | d # ds \<Rightarrow>
             if d = CHR ''}'' then map_option ((#) (CHR ''}'')) (simple_format ds p)
             else None)
      else map_option ((#) c) (simple_format cs p))"

section \<open>Exceptions, events and effects\<close>

text \<open>
  An exception is its class (the exact class, as \<open>type(e)\<close> gives it) and the text
  \<open>str(e)\<close> gives. \<open>except Exception\<close> catches every class but the three that derive
  from \<open>BaseException\<close> only; \<open>except FileNotFoundError\<close> catches that class alone.
\<close>

datatype exc_class =
    FileNotFoundError | IsADirectoryError | JSONDecodeError | TemplateNotFound
  | TemplateError | ValueError | TypeError | AttributeError | KeyError | IndexError
  | EOFError | RuntimeError | KeyboardInterrupt | CancelledError | SystemExit

datatype exc = Exc (exc_class: exc_class) (exc_str: string)

definition is_Exception :: "exc \<Rightarrow> bool" where
  "is_Exception e = (exc_class e \<notin> {KeyboardInterrupt, CancelledError, SystemExit})"

text \<open>
  What the program does to the outside, in order: console output and input, files opened,
  the calls into dotenv, argparse, jinja2 and the browser automation library.
\<close>

datatype event =
    Print string
  | PrintValue string pyval
  | Input string
  | OpenFile string
  | LoadDotenv
  | ParseArgs
  | RenderTemplate string
  | SessionCreate pyval pyval pyval
  | SessionStart
  | SessionNavigate string
  | LLMCreate pyval
  | AgentCreate string pyval
  | AgentRun
  | SessionStop

text \<open>A computation returns or raises, and leaves a trace of events.\<close>

type_synonym 'a io = "(exc + 'a) \<times> event list"

definition io_ret :: "'a \<Rightarrow> 'a io" where
  "io_ret x = (Inr x, [])"

definition io_raise :: "exc \<Rightarrow> 'a io" where
  "io_raise e = (Inl e, [])"

definition io_lift :: "exc + 'a \<Rightarrow> 'a io" where
  "io_lift r = (r, [])"

definition io_emit :: "event \<Rightarrow> unit io" where
  "io_emit ev = (Inr (), [ev])"

definition io_bind :: "'a io \<Rightarrow> ('a \<Rightarrow> 'b io) \<Rightarrow> 'b io" where
  "io_bind m f =
     (case m of
        (Inl e, tr) \<Rightarrow> (Inl e, tr)
      | (Inr x, tr) \<Rightarrow> (case f x of (r, tr') \<Rightarrow> (r, tr @ tr')))"

text \<open>\<open>try: m  except <classes>: handler\<close>.\<close>

definition io_catch :: "'a io \<Rightarrow> (exc \<Rightarrow> bool) \<Rightarrow> (exc \<Rightarrow> 'a io) \<Rightarrow> 'a io" where
  "io_catch m caught handler =
     (case m of
        (Inl e, tr) \<Rightarrow>
          if caught e then (case handler e of (r, tr') \<Rightarrow> (r, tr @ tr')) else (Inl e, tr)
      | (Inr x, tr) \<Rightarrow> (Inr x, tr))"

text \<open>
  \<open>try: m  finally: fin\<close>. The final block runs whatever \<open>m\<close> did; when it raises, its
  exception replaces the outcome of \<open>m\<close>.
\<close>

definition io_finally :: "'a io \<Rightarrow> unit io \<Rightarrow> 'a io" where
  "io_finally m fin =
     (case m of
        (r, tr) \<Rightarrow>
          (case fin of
             (Inl e, tr') \<Rightarrow> (Inl e, tr @ tr')
           | (Inr u, tr') \<Rightarrow> (r, tr @ tr')))"

text \<open>A call into an external library: the event, and the exception it raises if any.\<close>

definition external :: "event \<Rightarrow> exc option \<Rightarrow> unit io" where
  "external ev outcome = ((case outcome of None \<Rightarrow> Inr () | Some e \<Rightarrow> Inl e), [ev])"

section \<open>The outside world\<close>

text \<open>
  What a run of the program finds outside itself. A path names a regular file with its
  text (as \<open>f.read()\<close> returns it), a directory, or nothing. The libraries the program
  calls are parameters: \<open>json.load\<close> and the jinja2 renderer give a result or the text of
  their error, \<open>str_format_ext\<close> is \<open>str.format\<close> on the templates \<open>simple_format\<close> does
  not cover, \<open>dotenv\<close> holds the variables \<open>load_dotenv\<close> finds, and \<open>outcomes\<close> says,
  for each platform, which calls into the browser automation library raise.
\<close>

datatype fs_entry = File string | Directory

datatype variant = Bumble | Tinder | Hinge | OkCupid

record run_outcomes =
  session_new :: "exc option"
  session_start :: "exc option"
  session_navigate :: "exc option"
  llm_new :: "exc option"
  agent_new :: "exc option"
  agent_run :: "exc option"
  session_stop :: "exc option"

text \<open>
  The namespace \<open>parse_args\<close> returns, each attribute with the type the parser declares
  for it: a string, an integer or a float (or \<open>None\<close> when the option is not given), a
  boolean for the \<open>store_true\<close> flags.
\<close>

record args =
  arg_platform :: "string option"
  arg_config :: "string option"
  arg_headless :: bool
  arg_viewport_width :: "int option"
  arg_viewport_height :: "int option"
  arg_min_wait :: "(int \<times> int) option"
  arg_max_wait :: "(int \<times> int) option"
  arg_profile_dir :: "string option"
  arg_trace_path :: "string option"
  arg_model :: "string option"
  arg_verbose :: bool
  arg_interactive :: bool

record world =
  environ :: "string \<rightharpoonup> string"
  dotenv :: "string \<rightharpoonup> string"
  home :: string
  project_root :: string
  fs :: "string \<rightharpoonup> fs_entry"
  json_loads :: "string \<Rightarrow> string + pyval"
  jinja_render :: "string \<Rightarrow> pyval \<Rightarrow> string + string"
  str_format_ext :: "string \<Rightarrow> string \<Rightarrow> exc + string"
  outcomes :: "variant \<Rightarrow> run_outcomes"
  parsed_args :: "exc + args"
  stdin :: "string list"

text \<open>\<open>load_dotenv()\<close>: variables already in the environment are kept.\<close>

definition load_dotenv :: "world \<Rightarrow> world" where
  "load_dotenv w = w\<lparr>environ := dotenv w ++ environ w\<rparr>"

section \<open>loader.py\<close>

text \<open>\<open>Path(a) / b\<close>; paths are compared as written.\<close>

definition path_join :: "string \<Rightarrow> string \<Rightarrow> string" where
  "path_join a b = a @ ''/'' @ b"

definition get_project_root :: "world \<Rightarrow> string" where
  "get_project_root w = project_root w"

definition get_xdg_config_home :: "world \<Rightarrow> string" where
  "get_xdg_config_home w =
     (case environ w ''XDG_CONFIG_HOME'' of
        Some xdg_config_home \<Rightarrow>
          if xdg_config_home \<noteq> [] then xdg_config_home else path_join (home w) ''.config''
      | None \<Rightarrow> path_join (home w) ''.config'')"

definition get_default_config_path :: "world \<Rightarrow> string" where
  "get_default_config_path w =
     path_join (path_join (get_xdg_config_home w) ''wifebot'') ''config.json''"

text \<open>\<open>path.exists()\<close>.\<close>

definition path_exists :: "world \<Rightarrow> string \<Rightarrow> bool" where
  "path_exists w p = (fs w p \<noteq> None)"

text \<open>\<open>open(path, 'r')\<close> followed by \<open>f.read()\<close>.\<close>

definition read_text :: "world \<Rightarrow> string \<Rightarrow> string io" where
  "read_text w p =
     (case fs w p of
        None \<Rightarrow> (Inl (Exc FileNotFoundError (''[Errno 2] No such file or directory: '' @ repr_str p)), [OpenFile p])
      | Some Directory \<Rightarrow> (Inl (Exc IsADirectoryError (''[Errno 21] Is a directory: '' @ repr_str p)), [OpenFile p])
      | Some (File content) \<Rightarrow> (Inr content, [OpenFile p]))"

text \<open>
  \<open>load_config(config_path)\<close>. The argument is \<open>None\<close> or a string; \<open>Path\<close> of anything
  else raises \<open>TypeError\<close>.
\<close>

definition load_config :: "world \<Rightarrow> pyval \<Rightarrow> pyval io" where
  "load_config w config_path =
     (case (case config_path of
              PNone \<Rightarrow> Inr (get_default_config_path w)
            | PStr s \<Rightarrow> Inr s
            | _ \<Rightarrow> Inl (Exc TypeError ''expected str, bytes or os.PathLike object'')) of
        Inl e \<Rightarrow> io_raise e
      | Inr p \<Rightarrow>
          if \<not> path_exists w p
          then io_raise (Exc FileNotFoundError (''Configuration file not found: '' @ p))
          else io_bind (read_text w p) (\<lambda>content.
                 case json_loads w content of
                   Inl msg \<Rightarrow> io_raise (Exc JSONDecodeError msg)
                 | Inr cfg \<Rightarrow> io_ret cfg))"

text \<open>\<open>load_prompt(prompt_name)\<close>, with the default prompts directory.\<close>

definition load_prompt :: "world \<Rightarrow> string \<Rightarrow> string io" where
  "load_prompt w prompt_name =
     (let prompts_dir = path_join (get_project_root w) ''prompts'';
          prompt_file = path_join prompts_dir (prompt_name @ ''.txt'')
      in if \<not> path_exists w prompt_file
         then io_raise (Exc FileNotFoundError (''Prompt file not found: '' @ prompt_file))
         else io_bind (read_text w prompt_file) (\<lambda>content. io_ret (strip content)))"

text \<open>
  \<open>render_prompt_template(template_name, config)\<close>, with the default prompts directory.
  The loader of jinja2 finds the template file or raises \<open>TemplateNotFound\<close>; compiling
  and rendering are the parameter \<open>jinja_render\<close>.
\<close>

definition render_prompt_template :: "world \<Rightarrow> string \<Rightarrow> pyval \<Rightarrow> string io" where
  "render_prompt_template w template_name cfg =
     (let prompts_dir = path_join (get_project_root w) ''prompts''
      in case fs w (path_join prompts_dir template_name) of
           Some (File source) \<Rightarrow>
             (case jinja_render w source cfg of
                Inl msg \<Rightarrow> (Inl (Exc TemplateError msg), [RenderTemplate template_name])
              | Inr rendered \<Rightarrow> (Inr (strip rendered), [RenderTemplate template_name]))
         | _ \<Rightarrow> (Inl (Exc TemplateNotFound template_name), [RenderTemplate template_name]))"

text \<open>
  \<open>expand_path_template(template, platform=platform)\<close>, that is
  \<open>template.format(platform=platform)\<close>. Only a string has the method.
\<close>

definition expand_path_template :: "world \<Rightarrow> pyval \<Rightarrow> string \<Rightarrow> exc + string" where
  "expand_path_template w template platform =
     (case template of
        PStr t \<Rightarrow>
          (case simple_format t platform of
             Some r \<Rightarrow> Inr r
           | None \<Rightarrow> str_format_ext w t platform)
      | _ \<Rightarrow> Inl (Exc AttributeError ''object has no attribute format''))"

definition get_profile_dir :: "world \<Rightarrow> pyval \<Rightarrow> string \<Rightarrow> pyval \<Rightarrow> exc + pyval" where
  "get_profile_dir w cfg platform custom_dir =
     (if truthy custom_dir then Inr custom_dir
      else
        (let template = get_default_config_value cfg ''paths.profile_dir_template''
                          (PStr ''~/.config/browseruse/profiles/{platform}'')
         in map_sum id PStr (expand_path_template w template platform)))"

definition get_trace_path :: "world \<Rightarrow> pyval \<Rightarrow> string \<Rightarrow> pyval \<Rightarrow> exc + pyval" where
  "get_trace_path w cfg platform custom_path =
     (if truthy custom_path then Inr custom_path
      else
        (let template = get_default_config_value cfg ''paths.trace_path_template''
                          (PStr ''/tmp/wifebot/{platform}'')
         in map_sum id PStr (expand_path_template w template platform)))"

section \<open>platform.py and the four variants\<close>

text \<open>The three constants in which the subclasses differ.\<close>

fun name :: "variant \<Rightarrow> string" where
  "name Bumble = ''bumble''"
| "name Tinder = ''tinder''"
| "name Hinge = ''hinge''"
| "name OkCupid = ''okcupid''"

fun url :: "variant \<Rightarrow> string" where
  "url Bumble = ''https://bumble.com/app''"
| "url Tinder = ''https://tinder.com/app/recs''"
| "url Hinge = ''https://hinge.co/discover''"
| "url OkCupid = ''https://www.okcupid.com/discover''"

fun instructions_key :: "variant \<Rightarrow> string" where
  "instructions_key Bumble = ''bumble_instructions''"
| "instructions_key Tinder = ''tinder_instructions''"
| "instructions_key Hinge = ''hinge_instructions''"
| "instructions_key OkCupid = ''okcupid_instructions''"

text \<open>The attributes \<open>Platform.__init__\<close> sets, and the subclass of the instance.\<close>

record platform =
  variant :: variant
  config :: pyval
  base_task :: string
  headless :: pyval
  viewport_width :: pyval
  viewport_height :: pyval
  min_wait :: pyval
  max_wait :: pyval
  model :: pyval
  verbose :: pyval
  custom_profile_dir :: pyval
  custom_trace_path :: pyval

text \<open>\<open>kwargs.get(key)\<close>.\<close>

definition kwargs_get :: "(string \<rightharpoonup> pyval) \<Rightarrow> string \<Rightarrow> pyval" where
  "kwargs_get kwargs key = (case kwargs key of None \<Rightarrow> PNone | Some v \<Rightarrow> v)"

text \<open>
  \<open>Platform.__init__(self, config_path=None, **kwargs)\<close>, as every subclass calls it with
  the keyword arguments it was given: the key \<open>config_path\<close> binds the parameter, the
  others make \<open>kwargs\<close>. Only \<open>FileNotFoundError\<close> from \<open>load_config\<close> is caught.
\<close>

definition Platform_init :: "world \<Rightarrow> variant \<Rightarrow> (string \<rightharpoonup> pyval) \<Rightarrow> platform io" where
  "Platform_init w v kw =
     (let config_path = kwargs_get kw ''config_path'';
          kwargs = kw(''config_path'' := None);
          w' = load_dotenv w
      in io_bind (io_emit LoadDotenv) (\<lambda>_.
         io_bind (io_catch (load_config w' config_path)
                    (\<lambda>e. exc_class e = FileNotFoundError)
                    (\<lambda>e. io_ret (PDict []))) (\<lambda>cfg.
         io_bind (render_prompt_template w' ''base_task.tpl'' cfg) (\<lambda>base.
         io_ret \<lparr>
           variant = v,
           config = cfg,
           base_task = base,
           headless = resolve_config_value cfg ''headless'' kwargs ''browser.headless'' (PBool False),
           viewport_width = resolve_config_value cfg ''viewport_width'' kwargs ''browser.viewport.width'' (PInt 1280),
           viewport_height = resolve_config_value cfg ''viewport_height'' kwargs ''browser.viewport.height'' (PInt 1100),
           min_wait = resolve_config_value cfg ''min_wait'' kwargs ''browser.minimum_wait_page_load_time'' (PInt 1),
           max_wait = resolve_config_value cfg ''max_wait'' kwargs ''browser.maximum_wait_page_load_time'' (PInt 10),
           model = resolve_config_value cfg ''model'' kwargs ''llm.model'' (PStr ''gpt-4o-mini''),
           verbose = resolve_config_value cfg ''verbose'' kwargs ''verbose'' (PBool False),
           custom_profile_dir = kwargs_get kwargs ''profile_dir'',
           custom_trace_path = kwargs_get kwargs ''trace_path''
         \<rparr>))))"

text \<open>The properties of an instance.\<close>

definition platform_instructions :: "world \<Rightarrow> platform \<Rightarrow> string io" where
  "platform_instructions w p = load_prompt w (instructions_key (variant p))"

definition profile_dir :: "world \<Rightarrow> platform \<Rightarrow> exc + pyval" where
  "profile_dir w p = get_profile_dir w (config p) (name (variant p)) (custom_profile_dir p)"

definition trace_path :: "world \<Rightarrow> platform \<Rightarrow> exc + pyval" where
  "trace_path w p = get_trace_path w (config p) (name (variant p)) (custom_trace_path p)"

definition browser_config :: "platform \<Rightarrow> pyval" where
  "browser_config p =
     PDict [(''headless'', headless p),
            (''minimum_wait_page_load_time'', min_wait p),
            (''maximum_wait_page_load_time'', max_wait p),
            (''viewport'', PDict [(''width'', viewport_width p), (''height'', viewport_height p)])]"

definition llm_config :: "platform \<Rightarrow> pyval" where
  "llm_config p = PDict [(''model'', model p)]"

definition task :: "world \<Rightarrow> platform \<Rightarrow> string io" where
  "task w p =
     io_bind (platform_instructions w p) (\<lambda>instructions.
       io_ret (base_task p @ [CHR 0x0A, CHR 0x0A] @ instructions))"

text \<open>The four lines \<open>run\<close> prints when \<open>self.verbose\<close> is true.\<close>

definition verbose_report :: "world \<Rightarrow> platform \<Rightarrow> unit io" where
  "verbose_report w p =
     io_bind (io_emit (PrintValue ''Configuration: '' (browser_config p))) (\<lambda>_.
     io_bind (io_emit (PrintValue ''LLM: '' (llm_config p))) (\<lambda>_.
     io_bind (io_lift (profile_dir w p)) (\<lambda>pd.
     io_bind (io_emit (PrintValue ''Profile dir: '' pd)) (\<lambda>_.
     io_bind (io_lift (trace_path w p)) (\<lambda>tp.
     io_emit (PrintValue ''Trace path: '' tp))))))"

text \<open>The body of the \<open>try\<close> block of \<open>run\<close>: navigation, then the agent built and run.\<close>

definition run_body :: "world \<Rightarrow> platform \<Rightarrow> unit io" where
  "run_body w p =
     (let oc = outcomes w (variant p)
      in io_bind (external (SessionNavigate (url (variant p))) (session_navigate oc)) (\<lambda>_.
         io_bind (task w p) (\<lambda>t.
         io_bind (external (LLMCreate (llm_config p)) (llm_new oc)) (\<lambda>_.
         io_bind (io_lift (trace_path w p)) (\<lambda>tp1.
         io_bind (io_lift (trace_path w p)) (\<lambda>tp2.
         io_bind (io_lift (trace_path w p)) (\<lambda>tp3.
         io_bind (external (AgentCreate t tp2) (agent_new oc)) (\<lambda>_.
         external AgentRun (agent_run oc)))))))))"

text \<open>
  \<open>Platform.run\<close> up to the construction of the session: the report when verbose,
  then the profile and the session objects.
\<close>

definition run_setup :: "world \<Rightarrow> platform \<Rightarrow> unit io" where
  "run_setup w p =
     io_bind (if truthy (verbose p) then verbose_report w p else io_ret ()) (\<lambda>_.
     io_bind (io_lift (profile_dir w p)) (\<lambda>pd.
     io_bind (io_lift (trace_path w p)) (\<lambda>tp.
     external (SessionCreate (browser_config p) pd tp) (session_new (outcomes w (variant p))))))"

text \<open>
  \<open>Platform.run\<close>: the session is built and started outside the \<open>try\<close>; the \<open>finally\<close>
  clause stops it.
\<close>

definition run :: "world \<Rightarrow> platform \<Rightarrow> unit io" where
  "run w p =
     io_bind (run_setup w p) (\<lambda>_.
     io_bind (external SessionStart (session_start (outcomes w (variant p)))) (\<lambda>_.
     io_finally (run_body w p) (external SessionStop (session_stop (outcomes w (variant p))))))"

section \<open>factory.py\<close>

text \<open>The registry, in the order the dictionary literal declares it.\<close>

definition platforms :: "(string \<times> variant) list" where
  "platforms = [(''bumble'', Bumble), (''tinder'', Tinder), (''hinge'', Hinge), (''okcupid'', OkCupid)]"

definition get_available_platforms :: "string list" where
  "get_available_platforms = map fst platforms"

record factory =
  factory_config :: pyval
  factory_config_path :: pyval

definition PlatformFactory_init :: "world \<Rightarrow> pyval \<Rightarrow> factory io" where
  "PlatformFactory_init w config_path =
     io_bind (load_config w config_path) (\<lambda>cfg.
       io_ret \<lparr>factory_config = cfg, factory_config_path = config_path\<rparr>)"

definition unknown_platform_message :: "string \<Rightarrow> string" where
  "unknown_platform_message platform_name =
     ''Unknown platform: '' @ platform_name @ ''. Available: '' @ repr_str_list get_available_platforms"

definition create_platform :: "world \<Rightarrow> string \<Rightarrow> (string \<rightharpoonup> pyval) \<Rightarrow> platform io" where
  "create_platform w platform_name kwargs =
     (case map_of platforms platform_name of
        None \<Rightarrow> io_raise (Exc ValueError (unknown_platform_message platform_name))
      | Some v \<Rightarrow> Platform_init w v kwargs)"

definition run_single_platform :: "world \<Rightarrow> string \<Rightarrow> (string \<rightharpoonup> pyval) \<Rightarrow> unit io" where
  "run_single_platform w platform_name kwargs =
     io_bind (io_emit (Print (''Starting '' @ upper platform_name @ '' dating agent...''))) (\<lambda>_.
       io_catch
         (io_bind (create_platform w platform_name kwargs) (\<lambda>p.
          io_bind (run w p) (\<lambda>_.
          io_emit (Print (upper platform_name @ '' agent completed successfully.'')))))
         is_Exception
         (\<lambda>e. io_bind (io_emit (Print (''Error running '' @ upper platform_name @ '' agent: '' @ exc_str e)))
                 (\<lambda>_. io_raise e)))"

text \<open>One turn of the \<open>for\<close> loop of \<open>run_all_platforms\<close>, and the loop.\<close>

definition run_all_iteration :: "world \<Rightarrow> (string \<rightharpoonup> pyval) \<Rightarrow> string \<Rightarrow> unit io" where
  "run_all_iteration w kwargs p =
     io_bind (io_emit (Print (CHR 0x0A # replicate 50 (CHR ''='')))) (\<lambda>_.
     io_bind (io_emit (Print (''Starting '' @ upper p @ '' agent...''))) (\<lambda>_.
     io_bind (io_emit (Print (replicate 50 (CHR ''='')))) (\<lambda>_.
     io_bind (io_catch (run_single_platform w p kwargs) is_Exception
                (\<lambda>e. io_emit (Print (''Error running '' @ upper p @ '' agent: '' @ exc_str e)))) (\<lambda>_.
     io_emit (Print (CHR 0x0A # upper p @ '' agent session ended.''))))))"

fun run_all_loop :: "world \<Rightarrow> (string \<rightharpoonup> pyval) \<Rightarrow> string list \<Rightarrow> unit io" where
  "run_all_loop w kwargs [] = io_ret ()"
| "run_all_loop w kwargs (p # ps) =
     io_bind (run_all_iteration w kwargs p) (\<lambda>_. run_all_loop w kwargs ps)"

definition run_all_platforms :: "world \<Rightarrow> (string \<rightharpoonup> pyval) \<Rightarrow> unit io" where
  "run_all_platforms w kwargs =
     io_bind (io_emit (Print (''Running agents for all platforms: '' @ join '', '' get_available_platforms))) (\<lambda>_.
       run_all_loop w kwargs get_available_platforms)"

text \<open>
  \<open>interactive_mode\<close>. The menu, then the \<open>while True\<close> loop over the lines \<open>input\<close>
  returns; at the end of the input \<open>input\<close> raises \<open>EOFError\<close>, which the loop does not
  catch.
\<close>

definition menu :: "string list \<Rightarrow> event list" where
  "menu ps =
     Print ''Available dating platforms:''
     # map (\<lambda>(i, p). Print (''  '' @ str_nat i @ ''. '' @ capitalize p)) (zip [1 ..< Suc (length ps)] ps)
     @ [Print (''  '' @ str_nat (length ps + 1) @ ''. All platforms''),
        Print (''  '' @ str_nat (length ps + 2) @ ''. Exit'')]"

definition select_prompt :: "string list \<Rightarrow> string" where
  "select_prompt ps = CHR 0x0A # ''Select platform (1-'' @ str_nat (length ps + 2) @ ''): ''"

fun interactive_loop :: "string list \<Rightarrow> string list \<Rightarrow> (string option) io" where
  "interactive_loop ps [] =
     (Inl (Exc EOFError ''EOF when reading a line''), [Input (select_prompt ps)])"
| "interactive_loop ps (line # rest) =
     io_bind (io_emit (Input (select_prompt ps))) (\<lambda>_.
       case py_int line of
         None \<Rightarrow>
           io_bind (io_emit (Print ''Please enter a valid number.'')) (\<lambda>_.
             interactive_loop ps rest)
       | Some choice \<Rightarrow>
           if choice = int (length ps) + 2 then
             io_bind (io_emit (Print ''Goodbye!'')) (\<lambda>_. io_ret None)
           else if choice = int (length ps) + 1 then io_ret (Some ''all'')
           else if 1 \<le> choice \<and> choice \<le> int (length ps) then io_ret (Some (ps ! nat (choice - 1)))
           else
             io_bind (io_emit (Print (''Invalid choice. Please enter 1-'' @ str_nat (length ps + 2)))) (\<lambda>_.
               interactive_loop ps rest))"

definition interactive_mode :: "world \<Rightarrow> (string option) io" where
  "interactive_mode w =
     (let ps = get_available_platforms
      in io_bind (Inr (), menu ps) (\<lambda>_. interactive_loop ps (stdin w)))"

text \<open>\<open>extract_platform_config\<close>: the keyword arguments built from the namespace.\<close>

definition nonempty :: "string option \<Rightarrow> bool" where
  "nonempty x = (case x of None \<Rightarrow> False | Some s \<Rightarrow> s \<noteq> [])"

definition set_if :: "bool \<Rightarrow> string \<Rightarrow> pyval \<Rightarrow> (string \<rightharpoonup> pyval) \<Rightarrow> (string \<rightharpoonup> pyval)" where
  "set_if b key v m = (if b then m(key \<mapsto> v) else m)"

definition extract_platform_config :: "factory \<Rightarrow> args \<Rightarrow> (string \<rightharpoonup> pyval)" where
  "extract_platform_config f a =
     (let c0 = (if nonempty (arg_config a) then [''config_path'' \<mapsto> PStr (the (arg_config a))]
                else if truthy (factory_config_path f) then [''config_path'' \<mapsto> factory_config_path f]
                else Map.empty);
          c1 = set_if (arg_headless a) ''headless'' (PBool True) c0;
          c2 = set_if (arg_viewport_width a \<noteq> None) ''viewport_width'' (PInt (the (arg_viewport_width a))) c1;
          c3 = set_if (arg_viewport_height a \<noteq> None) ''viewport_height'' (PInt (the (arg_viewport_height a))) c2;
          c4 = set_if (arg_min_wait a \<noteq> None) ''min_wait'' (case_prod PFloat (the (arg_min_wait a))) c3;
          c5 = set_if (arg_max_wait a \<noteq> None) ''max_wait'' (case_prod PFloat (the (arg_max_wait a))) c4;
          c6 = set_if (arg_model a \<noteq> None) ''model'' (PStr (the (arg_model a))) c5;
          c7 = set_if (arg_verbose a) ''verbose'' (PBool True) c6;
          c8 = set_if (nonempty (arg_profile_dir a)) ''profile_dir'' (PStr (the (arg_profile_dir a))) c7;
          c9 = set_if (nonempty (arg_trace_path a)) ''trace_path'' (PStr (the (arg_trace_path a))) c8
      in c9)"

text \<open>\<open>sys.exit(1)\<close> raises \<open>SystemExit\<close>, which \<open>except Exception\<close> lets through.\<close>

definition sys_exit_1 :: "unit io" where
  "sys_exit_1 = io_raise (Exc SystemExit ''1'')"

definition usage_guidance :: "unit io" where
  "usage_guidance =
     io_bind (io_emit (Print (''Available platforms: '' @ join '', '' get_available_platforms))) (\<lambda>_.
     io_bind (io_emit (Print (''Use '' @ repr_str ''all'' @ '' to run all platforms or --interactive for interactive mode''))) (\<lambda>_.
     sys_exit_1))"

definition run_from_args :: "world \<Rightarrow> factory \<Rightarrow> args \<Rightarrow> unit io" where
  "run_from_args w f a =
     (let cfg = extract_platform_config f a
      in io_catch
           (if arg_interactive a then
              io_bind (interactive_mode w) (\<lambda>selected_platform.
                case selected_platform of
                  None \<Rightarrow> io_ret ()
                | Some s \<Rightarrow>
                    if s = ''all'' then run_all_platforms w cfg
                    else run_single_platform w s cfg)
            else if arg_platform a = Some ''all'' then run_all_platforms w cfg
            else if (case arg_platform a of None \<Rightarrow> False | Some s \<Rightarrow> s \<in> set get_available_platforms)
              then run_single_platform w (the (arg_platform a)) cfg
            else if arg_platform a = None then
              io_bind (io_emit (Print ''Error: You must specify a platform or use --interactive'')) (\<lambda>_.
                usage_guidance)
            else
              io_bind (io_emit (Print (''Error: Unknown platform '' @ repr_str (the (arg_platform a))))) (\<lambda>_.
                usage_guidance))
           is_Exception
           (\<lambda>e. io_bind (io_emit (Print (''Fatal error: '' @ exc_str e))) (\<lambda>_. sys_exit_1)))"

section \<open>main.py\<close>

text \<open>
  \<open>async_main\<close>: the factory is built with no path, then the arguments are parsed, then
  the selected path runs. An exception leaves \<open>async_main\<close> and ends the program.
\<close>

definition async_main :: "world \<Rightarrow> unit io" where
  "async_main w =
     io_bind (PlatformFactory_init w PNone) (\<lambda>f.
     io_bind (parsed_args w, [ParseArgs]) (\<lambda>a.
     run_from_args w f a))"

section \<open>Sample worlds\<close>

text \<open>
  An installation with the prompt files and no configuration file, in which every call
  into the browser automation library returns.
\<close>

definition all_return :: run_outcomes where
  "all_return = \<lparr>session_new = None, session_start = None, session_navigate = None,
     llm_new = None, agent_new = None, agent_run = None, session_stop = None\<rparr>"

definition no_args :: args where
  "no_args = \<lparr>arg_platform = None, arg_config = None, arg_headless = False,
     arg_viewport_width = None, arg_viewport_height = None, arg_min_wait = None,
     arg_max_wait = None, arg_profile_dir = None, arg_trace_path = None, arg_model = None,
     arg_verbose = False, arg_interactive = False\<rparr>"

definition sample_world :: world where
  "sample_world = \<lparr>
     environ = Map.empty,
     dotenv = Map.empty,
     home = ''/home/u'',
     project_root = ''/app'',
     fs = map_of
       [(''/app/prompts/base_task.tpl'', File ''Be kind. ''),
        (''/app/prompts/bumble_instructions.txt'', File ''Open Bumble.''),
        (''/app/prompts/tinder_instructions.txt'', File [CHR '' '', CHR ''G'', CHR ''o'', CHR ''.'', CHR 0x0A]),
        (''/app/prompts/hinge_instructions.txt'', File ''Open Hinge.''),
        (''/app/prompts/okcupid_instructions.txt'', File ''Open OkCupid.'')],
     json_loads = (\<lambda>s. if s = ''{}'' then Inr (PDict []) else Inl ''Expecting value''),
     jinja_render = (\<lambda>source cfg. Inr source),
     str_format_ext = (\<lambda>t p. Inl (Exc KeyError ''field'')),
     outcomes = (\<lambda>v. all_return),
     parsed_args = Inr (no_args\<lparr>arg_platform := Some ''all''\<rparr>),
     stdin = []
   \<rparr>"

text \<open>The same with a configuration file that is not JSON at the default path.\<close>

definition malformed_world :: world where
  "malformed_world =
     sample_world\<lparr>fs := (fs sample_world)(''/home/u/.config/wifebot/config.json'' \<mapsto> File ''{oops'')\<rparr>"

text \<open>The same as the first, but the agent of Bumble is interrupted from the keyboard.\<close>

definition interrupted_world :: world where
  "interrupted_world =
     sample_world\<lparr>outcomes := (\<lambda>v. if v = Bumble
        then all_return\<lparr>agent_run := Some (Exc KeyboardInterrupt [])\<rparr>
        else all_return)\<rparr>"

text \<open>The same as the first, but the agent of Tinder fails and Hinge cannot navigate.\<close>

definition failing_world :: world where
  "failing_world =
     sample_world\<lparr>outcomes := (\<lambda>v.
        if v = Tinder then all_return\<lparr>agent_run := Some (Exc RuntimeError ''agent failed'')\<rparr>
        else if v = Hinge then all_return\<lparr>session_navigate := Some (Exc RuntimeError ''timeout'')\<rparr>
        else all_return)\<rparr>"

section \<open>Properties\<close>

text \<open>
  C1. When the setting name is a key of the keyword arguments, the resolution returns the
  stored value, whatever it is (also \<open>False\<close>, \<open>0\<close>, the empty string or \<open>None\<close>) and
  whatever the configuration document and the default are.
\<close>

theorem C1_override_wins:
  "kwargs s = Some v \<Longrightarrow> resolve_config_value c s kwargs k d = v"
  by (simp add: resolve_config_value_def)

theorem C1_override_wins_witness:
  "[''headless'' \<mapsto> PBool False] ''headless'' = Some (PBool False) \<and>
   resolve_config_value (PDict [(''browser'', PDict [(''headless'', PBool True)])])
     ''headless'' [''headless'' \<mapsto> PBool False] ''browser.headless'' (PBool True)
   = PBool False"
  using C1_override_wins [of "[''headless'' \<mapsto> PBool False]" "''headless''" "PBool False"
      "PDict [(''browser'', PDict [(''headless'', PBool True)])]" "''browser.headless''" "PBool True"]
  by simp

text \<open>
  C2, as stated, fails where the document holds a JSON null at the path: every segment
  resolves, and the resolution still returns the default, because it treats a null like an
  absent value.
\<close>

theorem C2_null_counterexample:
  "walk_keys (PDict [(''llm'', PDict [(''model'', PNone)])]) (split_on (CHR ''.'') ''llm.model'')
     = Some PNone \<and>
   resolve_config_value (PDict [(''llm'', PDict [(''model'', PNone)])]) ''model'' Map.empty
     ''llm.model'' (PStr ''gpt-4o-mini'') = PStr ''gpt-4o-mini''"
  by (simp add: resolve_config_value_def get_default_config_value_def)

text \<open>
  C2, amended. For a setting name absent from the keyword arguments: when every segment
  of the dotted path resolves and the value found is not null, that value is returned
  unchanged; when the value found is null, or some segment does not resolve, the default
  is returned.
\<close>

theorem C2_config_then_default:
  "kwargs s = None \<Longrightarrow>
   (\<forall>v. walk_keys c (split_on (CHR ''.'') k) = Some v \<and> v \<noteq> PNone \<longrightarrow>
        resolve_config_value c s kwargs k d = v) \<and>
   (walk_keys c (split_on (CHR ''.'') k) = Some PNone \<longrightarrow> resolve_config_value c s kwargs k d = d) \<and>
   (walk_keys c (split_on (CHR ''.'') k) = None \<longrightarrow> resolve_config_value c s kwargs k d = d)"
  by (simp add: resolve_config_value_def get_default_config_value_def)

theorem C2_config_then_default_witness:
  "(Map.empty :: string \<rightharpoonup> pyval) ''headless'' = None \<and>
   resolve_config_value (PDict [(''browser'', PDict [(''headless'', PBool False)])]) ''headless''
     Map.empty ''browser.headless'' (PBool True) = PBool False \<and>
   resolve_config_value (PDict [(''browser'', PInt 3)]) ''headless''
     Map.empty ''browser.headless'' (PBool True) = PBool True \<and>
   resolve_config_value (PDict [(''browser'', PDict [(''headless'', PNone)])]) ''headless''
     Map.empty ''browser.headless'' (PBool True) = PBool True"
proof -
  have absent: "(Map.empty :: string \<rightharpoonup> pyval) ''headless'' = None"
    by simp
  have found: "walk_keys (PDict [(''browser'', PDict [(''headless'', PBool False)])])
      (split_on (CHR ''.'') ''browser.headless'') = Some (PBool False) \<and> PBool False \<noteq> PNone"
    by simp
  have missing: "walk_keys (PDict [(''browser'', PInt 3)])
      (split_on (CHR ''.'') ''browser.headless'') = None"
    by simp
  from C2_config_then_default [where kwargs = Map.empty and s = "''headless''"
      and c = "PDict [(''browser'', PDict [(''headless'', PBool False)])]"
      and k = "''browser.headless''" and d = "PBool True"] absent found
  have first: "resolve_config_value (PDict [(''browser'', PDict [(''headless'', PBool False)])])
      ''headless'' Map.empty ''browser.headless'' (PBool True) = PBool False"
    by blast
  from C2_config_then_default [where kwargs = Map.empty and s = "''headless''"
      and c = "PDict [(''browser'', PInt 3)]"
      and k = "''browser.headless''" and d = "PBool True"] absent missing
  have second: "resolve_config_value (PDict [(''browser'', PInt 3)])
      ''headless'' Map.empty ''browser.headless'' (PBool True) = PBool True"
    by blast
  have null: "walk_keys (PDict [(''browser'', PDict [(''headless'', PNone)])])
      (split_on (CHR ''.'') ''browser.headless'') = Some PNone"
    by simp
  from C2_config_then_default [where kwargs = Map.empty and s = "''headless''"
      and c = "PDict [(''browser'', PDict [(''headless'', PNone)])]"
      and k = "''browser.headless''" and d = "PBool True"] absent null
  have third: "resolve_config_value (PDict [(''browser'', PDict [(''headless'', PNone)])])
      ''headless'' Map.empty ''browser.headless'' (PBool True) = PBool True"
    by blast
  from absent first second third show ?thesis by blast
qed

subsection \<open>Construction of a platform\<close>

lemma split_on_nonempty: "split_on sep s \<noteq> []"
  by (induction s) (auto split: list.splits)

lemma walk_keys_empty_dict: "ks \<noteq> [] \<Longrightarrow> walk_keys (PDict []) ks = None"
  by (cases ks) simp_all

lemma resolve_empty_document:
  "resolve_config_value (PDict []) s kwargs k d = (case kwargs s of Some v \<Rightarrow> v | None \<Rightarrow> d)"
  by (simp add: resolve_config_value_def get_default_config_value_def
      walk_keys_empty_dict split_on_nonempty split: option.splits)

lemmas io_defs = io_bind_def io_catch_def io_finally_def io_emit_def io_ret_def io_raise_def
  io_lift_def external_def

lemmas string_defs = strip_def lstrip_def rstrip_def py_isspace_def path_join_def upper_def
  upper_char_def lower_char_def capitalize_def repr_str_def repr_str_list_def

lemmas loader_defs = load_dotenv_def get_project_root_def get_xdg_config_home_def
  get_default_config_path_def path_exists_def read_text_def load_config_def load_prompt_def
  render_prompt_template_def expand_path_template_def get_profile_dir_def get_trace_path_def
  get_default_config_value_def

lemmas platform_defs = kwargs_get_def Platform_init_def resolve_config_value_def
  platform_instructions_def profile_dir_def trace_path_def browser_config_def llm_config_def
  task_def verbose_report_def run_body_def run_setup_def run_def

lemmas factory_defs = platforms_def get_available_platforms_def PlatformFactory_init_def
  unknown_platform_message_def create_platform_def run_single_platform_def
  run_all_iteration_def run_all_platforms_def is_Exception_def

lemmas world_defs = sample_world_def malformed_world_def interrupted_world_def
  failing_world_def all_return_def no_args_def

text \<open>
  C3. When \<open>load_config\<close> raises \<open>FileNotFoundError\<close>, the constructor goes on with the
  empty document: it renders the base task with \<open>{}\<close>, and every setting is the keyword
  argument of its name if there is one and the built-in default otherwise. When
  \<open>load_config\<close> raises the parse error, the constructor raises it too.
\<close>

theorem C3_missing_config_tolerated:
  "(load_config (load_dotenv w) (kwargs_get kw ''config_path'') = (Inl (Exc FileNotFoundError m), tr) \<longrightarrow>
      Platform_init w v kw =
        (case render_prompt_template (load_dotenv w) ''base_task.tpl'' (PDict []) of
           (Inl e, tr') \<Rightarrow> (Inl e, LoadDotenv # tr @ tr')
         | (Inr base, tr') \<Rightarrow>
             (Inr \<lparr>variant = v, config = PDict [], base_task = base,
                headless = (case kw ''headless'' of Some x \<Rightarrow> x | None \<Rightarrow> PBool False),
                viewport_width = (case kw ''viewport_width'' of Some x \<Rightarrow> x | None \<Rightarrow> PInt 1280),
                viewport_height = (case kw ''viewport_height'' of Some x \<Rightarrow> x | None \<Rightarrow> PInt 1100),
                min_wait = (case kw ''min_wait'' of Some x \<Rightarrow> x | None \<Rightarrow> PInt 1),
                max_wait = (case kw ''max_wait'' of Some x \<Rightarrow> x | None \<Rightarrow> PInt 10),
                model = (case kw ''model'' of Some x \<Rightarrow> x | None \<Rightarrow> PStr ''gpt-4o-mini''),
                verbose = (case kw ''verbose'' of Some x \<Rightarrow> x | None \<Rightarrow> PBool False),
                custom_profile_dir = kwargs_get kw ''profile_dir'',
                custom_trace_path = kwargs_get kw ''trace_path''\<rparr>,
              LoadDotenv # tr @ tr'))) \<and>
   (load_config (load_dotenv w) (kwargs_get kw ''config_path'') = (Inl (Exc JSONDecodeError m), tr) \<longrightarrow>
      Platform_init w v kw = (Inl (Exc JSONDecodeError m), LoadDotenv # tr))"
  by (simp add: Platform_init_def io_bind_def io_catch_def io_emit_def io_ret_def
      resolve_empty_document kwargs_get_def split: prod.splits sum.splits)

theorem C3_missing_config_tolerated_witness:
  "load_config (load_dotenv sample_world) (kwargs_get [''headless'' \<mapsto> PBool True] ''config_path'')
     = (Inl (Exc FileNotFoundError ''Configuration file not found: /home/u/.config/wifebot/config.json''), []) \<and>
   Platform_init sample_world Tinder [''headless'' \<mapsto> PBool True] =
     (Inr \<lparr>variant = Tinder, config = PDict [], base_task = ''Be kind.'',
        headless = PBool True, viewport_width = PInt 1280, viewport_height = PInt 1100,
        min_wait = PInt 1, max_wait = PInt 10, model = PStr ''gpt-4o-mini'',
        verbose = PBool False, custom_profile_dir = PNone, custom_trace_path = PNone\<rparr>,
      [LoadDotenv, RenderTemplate ''base_task.tpl'']) \<and>
   load_config (load_dotenv malformed_world) (kwargs_get Map.empty ''config_path'')
     = (Inl (Exc JSONDecodeError ''Expecting value''), [OpenFile ''/home/u/.config/wifebot/config.json'']) \<and>
   Platform_init malformed_world Tinder Map.empty =
     (Inl (Exc JSONDecodeError ''Expecting value''),
      [LoadDotenv, OpenFile ''/home/u/.config/wifebot/config.json''])"
proof -
  have missing: "load_config (load_dotenv sample_world) (kwargs_get [''headless'' \<mapsto> PBool True] ''config_path'')
     = (Inl (Exc FileNotFoundError ''Configuration file not found: /home/u/.config/wifebot/config.json''), [])"
    by (simp add: loader_defs io_defs string_defs world_defs kwargs_get_def)
  have rendered: "render_prompt_template (load_dotenv sample_world) ''base_task.tpl'' (PDict [])
     = (Inr ''Be kind.'', [RenderTemplate ''base_task.tpl''])"
    by (simp add: loader_defs io_defs string_defs world_defs)
  have malformed: "load_config (load_dotenv malformed_world) (kwargs_get Map.empty ''config_path'')
     = (Inl (Exc JSONDecodeError ''Expecting value''), [OpenFile ''/home/u/.config/wifebot/config.json''])"
    by (simp add: loader_defs io_defs string_defs world_defs kwargs_get_def)
  from C3_missing_config_tolerated [where w = sample_world and kw = "[''headless'' \<mapsto> PBool True]"
      and v = Tinder] missing
  have "Platform_init sample_world Tinder [''headless'' \<mapsto> PBool True] =
        (case render_prompt_template (load_dotenv sample_world) ''base_task.tpl'' (PDict []) of
           (Inl e, tr') \<Rightarrow> (Inl e, LoadDotenv # [] @ tr')
         | (Inr base, tr') \<Rightarrow>
             (Inr \<lparr>variant = Tinder, config = PDict [], base_task = base,
                headless = (case [''headless'' \<mapsto> PBool True] ''headless'' of Some x \<Rightarrow> x | None \<Rightarrow> PBool False),
                viewport_width = (case [''headless'' \<mapsto> PBool True] ''viewport_width'' of Some x \<Rightarrow> x | None \<Rightarrow> PInt 1280),
                viewport_height = (case [''headless'' \<mapsto> PBool True] ''viewport_height'' of Some x \<Rightarrow> x | None \<Rightarrow> PInt 1100),
                min_wait = (case [''headless'' \<mapsto> PBool True] ''min_wait'' of Some x \<Rightarrow> x | None \<Rightarrow> PInt 1),
                max_wait = (case [''headless'' \<mapsto> PBool True] ''max_wait'' of Some x \<Rightarrow> x | None \<Rightarrow> PInt 10),
                model = (case [''headless'' \<mapsto> PBool True] ''model'' of Some x \<Rightarrow> x | None \<Rightarrow> PStr ''gpt-4o-mini''),
                verbose = (case [''headless'' \<mapsto> PBool True] ''verbose'' of Some x \<Rightarrow> x | None \<Rightarrow> PBool False),
                custom_profile_dir = kwargs_get [''headless'' \<mapsto> PBool True] ''profile_dir'',
                custom_trace_path = kwargs_get [''headless'' \<mapsto> PBool True] ''trace_path''\<rparr>,
              LoadDotenv # [] @ tr'))"
    by blast
  then have built: "Platform_init sample_world Tinder [''headless'' \<mapsto> PBool True] =
     (Inr \<lparr>variant = Tinder, config = PDict [], base_task = ''Be kind.'',
        headless = PBool True, viewport_width = PInt 1280, viewport_height = PInt 1100,
        min_wait = PInt 1, max_wait = PInt 10, model = PStr ''gpt-4o-mini'',
        verbose = PBool False, custom_profile_dir = PNone, custom_trace_path = PNone\<rparr>,
      [LoadDotenv, RenderTemplate ''base_task.tpl''])"
    by (simp add: rendered kwargs_get_def)
  from C3_missing_config_tolerated [where w = malformed_world and kw = Map.empty and v = Tinder] malformed
  have raised: "Platform_init malformed_world Tinder Map.empty =
     (Inl (Exc JSONDecodeError ''Expecting value''),
      [LoadDotenv, OpenFile ''/home/u/.config/wifebot/config.json''])"
    by blast
  from missing built malformed raised show ?thesis by blast
qed

subsection \<open>The factory\<close>

lemma load_config_no_file:
  assumes "\<forall>c. fs w p \<noteq> Some (File c)"
  shows "load_config w (PStr p) =
           (if fs w p = None
            then (Inl (Exc FileNotFoundError (''Configuration file not found: '' @ p)), [])
            else (Inl (Exc IsADirectoryError (''[Errno 21] Is a directory: '' @ repr_str p)), [OpenFile p]))"
  using assms
  by (cases "fs w p")
     (auto simp: load_config_def path_exists_def read_text_def io_bind_def io_raise_def
        split: fs_entry.splits)

lemma load_config_default: "load_config w PNone = load_config w (PStr (get_default_config_path w))"
  by (simp add: load_config_def)

text \<open>
  C4. The constructor of the factory loads the configuration and catches nothing. When
  no regular file is at the default path, nor at the path given to the constructor if one
  is given, the constructor raises (\<open>FileNotFoundError\<close>, or \<open>IsADirectoryError\<close> from
  \<open>open\<close> when the path is a directory), and so does \<open>async_main\<close>, which builds the
  factory without a path first: it has done nothing but try to open the file, so no
  argument is parsed, no menu shown, no platform built. When nothing is at the default
  path, \<open>async_main\<close> ends with \<open>FileNotFoundError\<close> and an empty trace.
\<close>

theorem C4_factory_requires_config:
  assumes "\<forall>c. fs w (get_default_config_path w) \<noteq> Some (File c)"
    and "\<forall>p. cp = Some p \<longrightarrow> (\<forall>c. fs w p \<noteq> Some (File c))"
  shows "(\<exists>e. fst (PlatformFactory_init w (case cp of None \<Rightarrow> PNone | Some p \<Rightarrow> PStr p)) = Inl e \<and>
              exc_class e \<in> {FileNotFoundError, IsADirectoryError}) \<and>
         (\<exists>e. fst (async_main w) = Inl e \<and> exc_class e \<in> {FileNotFoundError, IsADirectoryError}) \<and>
         set (snd (async_main w)) \<subseteq> {OpenFile (get_default_config_path w)} \<and>
         (\<not> path_exists w (get_default_config_path w) \<longrightarrow>
            async_main w =
              (Inl (Exc FileNotFoundError
                 (''Configuration file not found: '' @ get_default_config_path w)), []))"
proof -
  from load_config_no_file [OF assms(1)] have main: "load_config w PNone =
      (if fs w (get_default_config_path w) = None
       then (Inl (Exc FileNotFoundError (''Configuration file not found: '' @ get_default_config_path w)), [])
       else (Inl (Exc IsADirectoryError (''[Errno 21] Is a directory: '' @ repr_str (get_default_config_path w))),
             [OpenFile (get_default_config_path w)]))"
    by (simp only: load_config_default)
  have factory: "\<exists>e. fst (PlatformFactory_init w (case cp of None \<Rightarrow> PNone | Some p \<Rightarrow> PStr p)) = Inl e \<and>
              exc_class e \<in> {FileNotFoundError, IsADirectoryError}"
  proof (cases cp)
    case None
    with main show ?thesis by (simp add: PlatformFactory_init_def io_bind_def)
  next
    case (Some p)
    with assms(2) have "\<forall>c. fs w p \<noteq> Some (File c)" by simp
    from load_config_no_file [OF this] Some show ?thesis
      by (simp add: PlatformFactory_init_def io_bind_def)
  qed
  from main have prog: "async_main w =
      (if fs w (get_default_config_path w) = None
       then (Inl (Exc FileNotFoundError (''Configuration file not found: '' @ get_default_config_path w)), [])
       else (Inl (Exc IsADirectoryError (''[Errno 21] Is a directory: '' @ repr_str (get_default_config_path w))),
             [OpenFile (get_default_config_path w)]))"
    by (simp add: async_main_def PlatformFactory_init_def io_bind_def)
  from factory prog show ?thesis by (simp add: path_exists_def)
qed


theorem C4_factory_requires_config_witness:
  "fs sample_world (get_default_config_path sample_world) = None \<and>
   fs sample_world ''/etc/wifebot.json'' = None \<and>
   (\<exists>e. fst (PlatformFactory_init sample_world (PStr ''/etc/wifebot.json'')) = Inl e \<and>
        exc_class e \<in> {FileNotFoundError, IsADirectoryError}) \<and>
   async_main sample_world =
     (Inl (Exc FileNotFoundError
        ''Configuration file not found: /home/u/.config/wifebot/config.json''), [])"
proof -
  have no_default: "fs sample_world (get_default_config_path sample_world) = None"
    by (simp add: loader_defs string_defs world_defs)
  have no_given: "fs sample_world ''/etc/wifebot.json'' = None"
    by (simp add: world_defs)
  have h1: "\<forall>c. fs sample_world (get_default_config_path sample_world) \<noteq> Some (File c)"
    by (simp add: no_default)
  have h2: "\<forall>p. Some ''/etc/wifebot.json'' = Some p \<longrightarrow> (\<forall>c. fs sample_world p \<noteq> Some (File c))"
    by (simp add: no_given)
  have path: "get_default_config_path sample_world = ''/home/u/.config/wifebot/config.json''"
    by (simp add: loader_defs string_defs world_defs)
  from C4_factory_requires_config [OF h1 h2] no_default no_given path
  show ?thesis by (simp add: path_exists_def)
qed












subsection \<open>The task text\<close>

lemma lstrip_head: "lstrip s \<noteq> [] \<Longrightarrow> \<not> py_isspace (hd (lstrip s))"
  unfolding lstrip_def by (metis hd_dropWhile)

lemma rstrip_last: "rstrip s \<noteq> [] \<Longrightarrow> \<not> py_isspace (last (rstrip s))"
  unfolding rstrip_def by (metis hd_dropWhile last_rev rev_is_Nil_conv)

lemma rstrip_hd: "rstrip s \<noteq> [] \<Longrightarrow> hd (rstrip s) = hd s"
proof (induction s rule: rev_induct)
  case Nil
  then show ?case by (simp add: rstrip_def)
next
  case (snoc x xs)
  show ?case
  proof (cases "py_isspace x")
    case True
    then have eq: "rstrip (xs @ [x]) = rstrip xs" by (simp add: rstrip_def)
    with snoc have "rstrip xs \<noteq> []" by simp
    then have "xs \<noteq> []" by (auto simp: rstrip_def)
    with snoc eq show ?thesis by simp
  next
    case False
    then show ?thesis by (simp add: rstrip_def)
  qed
qed

lemma strip_trimmed:
  "strip s = [] \<or> (\<not> py_isspace (hd (strip s)) \<and> \<not> py_isspace (last (strip s)))"
proof (cases "strip s = []")
  case True
  then show ?thesis by simp
next
  case False
  then have ne: "rstrip (lstrip s) \<noteq> []" by (simp add: strip_def)
  then have "lstrip s \<noteq> []" by (auto simp: rstrip_def)
  then have "\<not> py_isspace (hd (lstrip s))" by (rule lstrip_head)
  with rstrip_hd [OF ne] have "\<not> py_isspace (hd (strip s))" by (simp add: strip_def)
  moreover from rstrip_last [OF ne] have "\<not> py_isspace (last (strip s))" by (simp add: strip_def)
  ultimately show ?thesis by simp
qed

lemma Platform_init_base_task:
  assumes "Platform_init w v kw = (Inr p, tr)"
  shows "render_prompt_template (load_dotenv w) ''base_task.tpl'' (config p) = (Inr (base_task p), [RenderTemplate ''base_task.tpl''])"
  using assms
  unfolding Platform_init_def Let_def
  apply (auto simp: io_bind_def io_emit_def io_ret_def split: prod.splits sum.splits)
  apply (auto simp: render_prompt_template_def Let_def split: option.splits fs_entry.splits sum.splits)
  done

text \<open>
  C7. For an instance of any variant, built in a world where the base-task template
  renders to \<open>rendered\<close>, and read in a world where the instruction file of the
  variant holds \<open>content\<close>, the property \<open>task\<close> is the stripped \<open>rendered\<close>, two line
  feeds, and the stripped \<open>content\<close>; a stripped string neither begins nor ends with a
  whitespace character.
\<close>

theorem C7_task_text:
  assumes "Platform_init w v kw = (Inr p, tr)"
    and "fs w (path_join (path_join (project_root w) ''prompts'') ''base_task.tpl'') = Some (File source)"
    and "jinja_render w source (config p) = Inr rendered"
    and "fs w2 (path_join (path_join (project_root w2) ''prompts'') (instructions_key v @ ''.txt'')) = Some (File content)"
  shows "task w2 p =
           (Inr (strip rendered @ [CHR 0x0A, CHR 0x0A] @ strip content),
            [OpenFile (path_join (path_join (project_root w2) ''prompts'') (instructions_key v @ ''.txt''))]) \<and>
         (strip rendered = [] \<or> (\<not> py_isspace (hd (strip rendered)) \<and> \<not> py_isspace (last (strip rendered)))) \<and>
         (strip content = [] \<or> (\<not> py_isspace (hd (strip content)) \<and> \<not> py_isspace (last (strip content))))"
proof -
  from assms(1) have var: "variant p = v"
    unfolding Platform_init_def Let_def
    by (auto simp: io_bind_def io_emit_def io_ret_def split: prod.splits sum.splits)
  from Platform_init_base_task [OF assms(1)] assms(2,3)
  have base: "base_task p = strip rendered"
    by (simp add: render_prompt_template_def get_project_root_def load_dotenv_def)
  from assms(4) var have "platform_instructions w2 p =
      (Inr (strip content), [OpenFile (path_join (path_join (project_root w2) ''prompts'') (instructions_key v @ ''.txt''))])"
    by (simp add: platform_instructions_def load_prompt_def get_project_root_def path_exists_def
        read_text_def io_bind_def io_ret_def)
  with base have "task w2 p =
           (Inr (strip rendered @ [CHR 0x0A, CHR 0x0A] @ strip content),
            [OpenFile (path_join (path_join (project_root w2) ''prompts'') (instructions_key v @ ''.txt''))])"
    by (simp add: task_def io_bind_def io_ret_def)
  with strip_trimmed [of rendered] strip_trimmed [of content] show ?thesis by blast
qed


theorem C7_task_text_witness:
  "Platform_init sample_world Tinder Map.empty =
     (Inr \<lparr>variant = Tinder, config = PDict [], base_task = ''Be kind.'',
        headless = PBool False, viewport_width = PInt 1280, viewport_height = PInt 1100,
        min_wait = PInt 1, max_wait = PInt 10, model = PStr ''gpt-4o-mini'',
        verbose = PBool False, custom_profile_dir = PNone, custom_trace_path = PNone\<rparr>,
      [LoadDotenv, RenderTemplate ''base_task.tpl'']) \<and>
   task sample_world
     \<lparr>variant = Tinder, config = PDict [], base_task = ''Be kind.'',
        headless = PBool False, viewport_width = PInt 1280, viewport_height = PInt 1100,
        min_wait = PInt 1, max_wait = PInt 10, model = PStr ''gpt-4o-mini'',
        verbose = PBool False, custom_profile_dir = PNone, custom_trace_path = PNone\<rparr> =
     (Inr (''Be kind.'' @ [CHR 0x0A, CHR 0x0A] @ ''Go.''),
      [OpenFile ''/app/prompts/tinder_instructions.txt''])"
proof -
  have built: "Platform_init sample_world Tinder Map.empty =
     (Inr \<lparr>variant = Tinder, config = PDict [], base_task = ''Be kind.'',
        headless = PBool False, viewport_width = PInt 1280, viewport_height = PInt 1100,
        min_wait = PInt 1, max_wait = PInt 10, model = PStr ''gpt-4o-mini'',
        verbose = PBool False, custom_profile_dir = PNone, custom_trace_path = PNone\<rparr>,
      [LoadDotenv, RenderTemplate ''base_task.tpl''])"
    by (simp add: platform_defs loader_defs io_defs string_defs world_defs)
  have template: "fs sample_world (path_join (path_join (project_root sample_world) ''prompts'') ''base_task.tpl'')
      = Some (File ''Be kind. '')"
    by (simp add: string_defs world_defs)
  have rendered: "jinja_render sample_world ''Be kind. ''
      (config \<lparr>variant = Tinder, config = PDict [], base_task = ''Be kind.'',
        headless = PBool False, viewport_width = PInt 1280, viewport_height = PInt 1100,
        min_wait = PInt 1, max_wait = PInt 10, model = PStr ''gpt-4o-mini'',
        verbose = PBool False, custom_profile_dir = PNone, custom_trace_path = PNone\<rparr>) = Inr ''Be kind. ''"
    by (simp add: world_defs)
  have prompt: "fs sample_world (path_join (path_join (project_root sample_world) ''prompts'')
      (instructions_key Tinder @ ''.txt'')) = Some (File [CHR '' '', CHR ''G'', CHR ''o'', CHR ''.'', CHR 0x0A])"
    by (simp add: string_defs world_defs)
  have paths: "path_join (path_join (project_root sample_world) ''prompts'') (instructions_key Tinder @ ''.txt'')
      = ''/app/prompts/tinder_instructions.txt''"
    by (simp add: string_defs world_defs)
  have s1: "strip ''Be kind. '' = ''Be kind.''"
    by (simp add: string_defs)
  have s2: "strip [CHR '' '', CHR ''G'', CHR ''o'', CHR ''.'', CHR 0x0A] = ''Go.''"
    by (simp add: string_defs)
  from C7_task_text [OF built template rendered prompt] built show ?thesis
    by (simp only: paths s1 s2)
qed

subsection \<open>Profile directory and trace path\<close>

lemma Platform_init_fields:
  assumes "Platform_init w v kw = (Inr p, tr)"
  shows "variant p = v \<and> custom_profile_dir p = kwargs_get kw ''profile_dir'' \<and>
         custom_trace_path p = kwargs_get kw ''trace_path''"
  using assms unfolding Platform_init_def Let_def
  by (auto simp: io_bind_def io_emit_def io_ret_def kwargs_get_def split: prod.splits sum.splits)

lemma expand_builtin_profile:
  "expand_path_template w (PStr ''~/.config/browseruse/profiles/{platform}'') n =
     Inr (''~/.config/browseruse/profiles/'' @ n)"
  by (simp add: expand_path_template_def)

lemma expand_builtin_trace:
  "expand_path_template w (PStr ''/tmp/wifebot/{platform}'') n = Inr (''/tmp/wifebot/'' @ n)"
  by (simp add: expand_path_template_def)

text \<open>
  C8, as stated, fails for an override that is present and falsy: with \<open>profile_dir\<close>
  and \<open>trace_path\<close> given as the empty string, the instance stores them and both
  properties return the templated defaults.
\<close>

theorem C8_falsy_counterexample:
  "(case fst (Platform_init sample_world Tinder [''profile_dir'' \<mapsto> PStr [], ''trace_path'' \<mapsto> PStr []]) of
      Inl e \<Rightarrow> False
    | Inr p \<Rightarrow>
        custom_profile_dir p = PStr [] \<and> custom_trace_path p = PStr [] \<and>
        profile_dir sample_world p = Inr (PStr ''~/.config/browseruse/profiles/tinder'') \<and>
        trace_path sample_world p = Inr (PStr ''/tmp/wifebot/tinder''))"
  by (simp add: platform_defs loader_defs io_defs string_defs world_defs)

text \<open>
  C8, amended. For the profile directory and the trace path of every instance: an
  override given to the constructor that is truthy (a non-empty string) is returned as it
  is; an override that is absent, \<open>None\<close> or otherwise falsy (the empty string) falls
  through to the path template of the configuration document, or the built-in one, with
  the platform name substituted; the built-in templates give
  \<open>~/.config/browseruse/profiles/<name>\<close> and \<open>/tmp/wifebot/<name>\<close>.
\<close>

theorem C8_custom_paths:
  assumes "Platform_init w v kw = (Inr p, tr)"
  shows
   "(truthy (kwargs_get kw ''profile_dir'') \<longrightarrow>
       profile_dir w2 p = Inr (kwargs_get kw ''profile_dir'')) \<and>
    (\<not> truthy (kwargs_get kw ''profile_dir'') \<longrightarrow>
       profile_dir w2 p = map_sum id PStr (expand_path_template w2
         (get_default_config_value (config p) ''paths.profile_dir_template''
            (PStr ''~/.config/browseruse/profiles/{platform}'')) (name v))) \<and>
    (truthy (kwargs_get kw ''trace_path'') \<longrightarrow>
       trace_path w2 p = Inr (kwargs_get kw ''trace_path'')) \<and>
    (\<not> truthy (kwargs_get kw ''trace_path'') \<longrightarrow>
       trace_path w2 p = map_sum id PStr (expand_path_template w2
         (get_default_config_value (config p) ''paths.trace_path_template''
            (PStr ''/tmp/wifebot/{platform}'')) (name v))) \<and>
    expand_path_template w2 (PStr ''~/.config/browseruse/profiles/{platform}'') (name v) =
      Inr (''~/.config/browseruse/profiles/'' @ name v) \<and>
    expand_path_template w2 (PStr ''/tmp/wifebot/{platform}'') (name v) =
      Inr (''/tmp/wifebot/'' @ name v)"
  using Platform_init_fields [OF assms] expand_builtin_profile expand_builtin_trace
  by (simp add: profile_dir_def trace_path_def get_profile_dir_def get_trace_path_def)

theorem C8_custom_paths_witness:
  "Platform_init sample_world Tinder [''profile_dir'' \<mapsto> PStr ''/data/p''] =
     (Inr \<lparr>variant = Tinder, config = PDict [], base_task = ''Be kind.'',
        headless = PBool False, viewport_width = PInt 1280, viewport_height = PInt 1100,
        min_wait = PInt 1, max_wait = PInt 10, model = PStr ''gpt-4o-mini'',
        verbose = PBool False, custom_profile_dir = PStr ''/data/p'', custom_trace_path = PNone\<rparr>,
      [LoadDotenv, RenderTemplate ''base_task.tpl'']) \<and>
   profile_dir sample_world
     \<lparr>variant = Tinder, config = PDict [], base_task = ''Be kind.'',
        headless = PBool False, viewport_width = PInt 1280, viewport_height = PInt 1100,
        min_wait = PInt 1, max_wait = PInt 10, model = PStr ''gpt-4o-mini'',
        verbose = PBool False, custom_profile_dir = PStr ''/data/p'', custom_trace_path = PNone\<rparr>
     = Inr (PStr ''/data/p'') \<and>
   trace_path sample_world
     \<lparr>variant = Tinder, config = PDict [], base_task = ''Be kind.'',
        headless = PBool False, viewport_width = PInt 1280, viewport_height = PInt 1100,
        min_wait = PInt 1, max_wait = PInt 10, model = PStr ''gpt-4o-mini'',
        verbose = PBool False, custom_profile_dir = PStr ''/data/p'', custom_trace_path = PNone\<rparr>
     = Inr (PStr ''/tmp/wifebot/tinder'')"
proof -
  have built: "Platform_init sample_world Tinder [''profile_dir'' \<mapsto> PStr ''/data/p''] =
     (Inr \<lparr>variant = Tinder, config = PDict [], base_task = ''Be kind.'',
        headless = PBool False, viewport_width = PInt 1280, viewport_height = PInt 1100,
        min_wait = PInt 1, max_wait = PInt 10, model = PStr ''gpt-4o-mini'',
        verbose = PBool False, custom_profile_dir = PStr ''/data/p'', custom_trace_path = PNone\<rparr>,
      [LoadDotenv, RenderTemplate ''base_task.tpl''])"
    by (simp add: platform_defs loader_defs io_defs string_defs world_defs)
  have given: "truthy (kwargs_get [''profile_dir'' \<mapsto> PStr ''/data/p''] ''profile_dir'')"
    by (simp add: kwargs_get_def)
  have absent: "\<not> truthy (kwargs_get [''profile_dir'' \<mapsto> PStr ''/data/p''] ''trace_path'')"
    by (simp add: kwargs_get_def)
  from C8_custom_paths [OF built, of sample_world] given absent built show ?thesis
    by (simp add: kwargs_get_def get_default_config_value_def)
qed

subsection \<open>The interactive menu\<close>





subsection \<open>The browser session\<close>

lemma io_bind_events:
  "ev \<in> set (snd (io_bind m f)) \<Longrightarrow>
   ev \<in> set (snd m) \<or> (\<exists>x. fst m = Inr x \<and> ev \<in> set (snd (f x)))"
  by (auto simp: io_bind_def split: prod.splits sum.splits)

lemma external_events: "ev \<in> set (snd (external e oc)) \<Longrightarrow> ev = e"
  by (simp add: external_def)

lemma io_lift_events: "ev \<in> set (snd (io_lift r)) \<Longrightarrow> False"
  by (simp add: io_lift_def)

lemma io_ret_events: "ev \<in> set (snd (io_ret r)) \<Longrightarrow> False"
  by (simp add: io_ret_def)

lemma io_emit_events: "ev \<in> set (snd (io_emit e)) \<Longrightarrow> ev = e"
  by (simp add: io_emit_def)

lemma read_text_events: "ev \<in> set (snd (read_text w f)) \<Longrightarrow> ev = OpenFile f"
  by (auto simp: read_text_def split: option.splits fs_entry.splits)

lemma load_prompt_events: "ev \<in> set (snd (load_prompt w n)) \<Longrightarrow> \<exists>f. ev = OpenFile f"
  unfolding load_prompt_def Let_def
  by (auto simp: io_raise_def dest!: io_bind_events read_text_events io_ret_events split: if_splits)

lemma task_events: "ev \<in> set (snd (task w p)) \<Longrightarrow> \<exists>f. ev = OpenFile f"
  unfolding task_def platform_instructions_def
  by (auto dest!: io_bind_events load_prompt_events io_ret_events)

lemma run_body_events:
  "ev \<in> set (snd (run_body w p)) \<Longrightarrow> ev \<noteq> SessionStart \<and> ev \<noteq> SessionStop"
  unfolding run_body_def Let_def
  by (auto dest!: io_bind_events external_events io_lift_events task_events)

lemma verbose_report_events:
  "ev \<in> set (snd (verbose_report w p)) \<Longrightarrow> \<exists>s v. ev = PrintValue s v"
  unfolding verbose_report_def
  by (auto dest!: io_bind_events io_emit_events io_lift_events)

lemma run_setup_events:
  "ev \<in> set (snd (run_setup w p)) \<Longrightarrow> ev \<noteq> SessionStart \<and> ev \<noteq> SessionStop"
  unfolding run_setup_def
  by (auto dest!: io_bind_events external_events io_lift_events io_ret_events verbose_report_events
      split: if_splits)

text \<open>
  C10. In every execution of \<open>run\<close> in which the session has been started (the call of
  \<open>start\<close> is in the trace and returned), the trace is: what precedes the start, the
  start, the events of the \<open>try\<close> block, and the call of \<open>stop\<close> as the last event,
  whether the block returned or raised; \<open>stop\<close> is called once, and \<open>run\<close> returns or
  raises only after it.
\<close>

theorem C10_session_always_stopped:
  assumes "SessionStart \<in> set (snd (run w p))"
    and "session_start (outcomes w (variant p)) = None"
  shows "snd (run w p) = snd (run_setup w p) @ [SessionStart] @ snd (run_body w p) @ [SessionStop] \<and>
         SessionStart \<notin> set (snd (run_setup w p)) \<and> SessionStop \<notin> set (snd (run_setup w p)) \<and>
         SessionStop \<notin> set (snd (run_body w p)) \<and>
         fst (run w p) = (case session_stop (outcomes w (variant p)) of
                            Some e \<Rightarrow> Inl e
                          | None \<Rightarrow> fst (run_body w p))"
proof -
  have pre: "SessionStart \<notin> set (snd (run_setup w p))" "SessionStop \<notin> set (snd (run_setup w p))"
    using run_setup_events by blast+
  have body: "SessionStop \<notin> set (snd (run_body w p))"
    using run_body_events by blast
  obtain r tr where rp: "run_setup w p = (r, tr)" by (cases "run_setup w p")
  show ?thesis
  proof (cases r)
    case (Inl e)
    with rp have "run w p = (Inl e, tr)" by (simp add: run_def io_bind_def)
    with assms(1) pre rp show ?thesis by simp
  next
    case (Inr u)
    with rp assms(2) show ?thesis
      using pre body
      by (cases "run_body w p")
         (simp add: run_def io_bind_def io_finally_def external_def split: option.splits)
  qed
qed


theorem C10_session_always_stopped_witness:
  "session_start (outcomes interrupted_world Bumble) = None \<and>
   run interrupted_world \<lparr>variant = Bumble, config = PDict [], base_task = ''Be kind.'',
        headless = PBool False, viewport_width = PInt 1280, viewport_height = PInt 1100,
        min_wait = PInt 1, max_wait = PInt 10, model = PStr ''gpt-4o-mini'',
        verbose = PBool False, custom_profile_dir = PNone, custom_trace_path = PNone\<rparr> =
     (Inl (Exc KeyboardInterrupt []), [SessionCreate
        (PDict [(''headless'', PBool False), (''minimum_wait_page_load_time'', PInt 1),
           (''maximum_wait_page_load_time'', PInt 10),
           (''viewport'', PDict [(''width'', PInt 1280), (''height'', PInt 1100)])])
        (PStr ''~/.config/browseruse/profiles/bumble'') (PStr ''/tmp/wifebot/bumble''),
       SessionStart, SessionNavigate ''https://bumble.com/app'',
       OpenFile ''/app/prompts/bumble_instructions.txt'',
       LLMCreate (PDict [(''model'', PStr ''gpt-4o-mini'')]),
       AgentCreate (''Be kind.'' @ [CHR 0x0A, CHR 0x0A] @ ''Open Bumble.'') (PStr ''/tmp/wifebot/bumble''),
       AgentRun, SessionStop]) \<and>
   fst (run_body interrupted_world \<lparr>variant = Bumble, config = PDict [], base_task = ''Be kind.'',
        headless = PBool False, viewport_width = PInt 1280, viewport_height = PInt 1100,
        min_wait = PInt 1, max_wait = PInt 10, model = PStr ''gpt-4o-mini'',
        verbose = PBool False, custom_profile_dir = PNone, custom_trace_path = PNone\<rparr>) = Inl (Exc KeyboardInterrupt [])"
proof -
  have started: "session_start (outcomes interrupted_world (variant \<lparr>variant = Bumble, config = PDict [], base_task = ''Be kind.'',
        headless = PBool False, viewport_width = PInt 1280, viewport_height = PInt 1100,
        min_wait = PInt 1, max_wait = PInt 10, model = PStr ''gpt-4o-mini'',
        verbose = PBool False, custom_profile_dir = PNone, custom_trace_path = PNone\<rparr>)) = None"
    by (simp add: world_defs)
  have whole: "run interrupted_world \<lparr>variant = Bumble, config = PDict [], base_task = ''Be kind.'',
        headless = PBool False, viewport_width = PInt 1280, viewport_height = PInt 1100,
        min_wait = PInt 1, max_wait = PInt 10, model = PStr ''gpt-4o-mini'',
        verbose = PBool False, custom_profile_dir = PNone, custom_trace_path = PNone\<rparr> =
     (Inl (Exc KeyboardInterrupt []), [SessionCreate
        (PDict [(''headless'', PBool False), (''minimum_wait_page_load_time'', PInt 1),
           (''maximum_wait_page_load_time'', PInt 10),
           (''viewport'', PDict [(''width'', PInt 1280), (''height'', PInt 1100)])])
        (PStr ''~/.config/browseruse/profiles/bumble'') (PStr ''/tmp/wifebot/bumble''),
       SessionStart, SessionNavigate ''https://bumble.com/app'',
       OpenFile ''/app/prompts/bumble_instructions.txt'',
       LLMCreate (PDict [(''model'', PStr ''gpt-4o-mini'')]),
       AgentCreate (''Be kind.'' @ [CHR 0x0A, CHR 0x0A] @ ''Open Bumble.'') (PStr ''/tmp/wifebot/bumble''),
       AgentRun, SessionStop])"
    by (simp add: platform_defs loader_defs io_defs string_defs world_defs)
  then have reached: "SessionStart \<in> set (snd (run interrupted_world \<lparr>variant = Bumble, config = PDict [], base_task = ''Be kind.'',
        headless = PBool False, viewport_width = PInt 1280, viewport_height = PInt 1100,
        min_wait = PInt 1, max_wait = PInt 10, model = PStr ''gpt-4o-mini'',
        verbose = PBool False, custom_profile_dir = PNone, custom_trace_path = PNone\<rparr>))"
    by simp
  have stop: "session_stop (outcomes interrupted_world (variant \<lparr>variant = Bumble, config = PDict [], base_task = ''Be kind.'',
        headless = PBool False, viewport_width = PInt 1280, viewport_height = PInt 1100,
        min_wait = PInt 1, max_wait = PInt 10, model = PStr ''gpt-4o-mini'',
        verbose = PBool False, custom_profile_dir = PNone, custom_trace_path = PNone\<rparr>)) = None"
    by (simp add: world_defs)
  from C10_session_always_stopped [OF reached started] whole stop started
  show ?thesis by simp
qed

subsection \<open>Running every platform\<close>

lemma bumble_interrupted:
  "run_single_platform interrupted_world ''bumble'' Map.empty =
     (Inl (Exc KeyboardInterrupt []),
      [Print ''Starting BUMBLE dating agent...'', LoadDotenv, RenderTemplate ''base_task.tpl'',
       SessionCreate
        (PDict [(''headless'', PBool False), (''minimum_wait_page_load_time'', PInt 1),
           (''maximum_wait_page_load_time'', PInt 10),
           (''viewport'', PDict [(''width'', PInt 1280), (''height'', PInt 1100)])])
        (PStr ''~/.config/browseruse/profiles/bumble'') (PStr ''/tmp/wifebot/bumble''),
       SessionStart, SessionNavigate ''https://bumble.com/app'',
       OpenFile ''/app/prompts/bumble_instructions.txt'',
       LLMCreate (PDict [(''model'', PStr ''gpt-4o-mini'')]),
       AgentCreate (''Be kind.'' @ [CHR 0x0A, CHR 0x0A] @ ''Open Bumble.'') (PStr ''/tmp/wifebot/bumble''),
       AgentRun, SessionStop])"
  by (simp add: factory_defs platform_defs loader_defs io_defs string_defs world_defs)

lemma cons_neq_replicate: "c \<noteq> d \<Longrightarrow> c # xs \<noteq> replicate n d"
  by (cases n) simp_all

text \<open>
  C5, as stated, fails for an exception that is not an instance of \<open>Exception\<close>: when
  the agent of the first platform is interrupted from the keyboard, neither handler
  catches the \<open>KeyboardInterrupt\<close>, the loop ends with it and the second platform is
  never started.
\<close>

theorem C5_interrupt_counterexample:
  "fst (run_single_platform interrupted_world ''bumble'' Map.empty) = Inl (Exc KeyboardInterrupt []) \<and>
   fst (run_all_platforms interrupted_world Map.empty) = Inl (Exc KeyboardInterrupt []) \<and>
   Print ''Starting TINDER dating agent...'' \<notin> set (snd (run_all_platforms interrupted_world Map.empty))"
  by (simp add: bumble_interrupted run_all_platforms_def get_available_platforms_def platforms_def
      run_all_iteration_def io_defs is_Exception_def upper_def upper_char_def cons_neq_replicate)

text \<open>
  C5, amended. \<open>run_all_platforms\<close> goes through the registry in declaration order
  (bumble, tinder, hinge, okcupid), one platform after the other. When every exception a
  platform run raises is an instance of \<open>Exception\<close>, each such exception is caught and
  printed, every platform is run exactly once in that order whichever of them fail, and
  the loop returns normally.
\<close>

lemma run_all_iteration_caught:
  assumes "\<forall>e. fst (run_single_platform w p kw) = Inl e \<longrightarrow> is_Exception e"
  shows "fst (run_all_iteration w kw p) = Inr () \<and>
         snd (run_all_iteration w kw p) =
           [Print (CHR 0x0A # replicate 50 (CHR ''='')),
            Print (''Starting '' @ upper p @ '' agent...''),
            Print (replicate 50 (CHR ''=''))]
           @ snd (run_single_platform w p kw)
           @ (case fst (run_single_platform w p kw) of
                Inl e \<Rightarrow> [Print (''Error running '' @ upper p @ '' agent: '' @ exc_str e)]
              | Inr u \<Rightarrow> [])
           @ [Print (CHR 0x0A # upper p @ '' agent session ended.'')]"
  using assms
  by (cases "run_single_platform w p kw")
     (auto simp: run_all_iteration_def io_bind_def io_catch_def io_emit_def split: sum.splits)

lemma run_all_loop_complete:
  assumes "\<forall>p \<in> set ps. fst (run_all_iteration w kw p) = Inr ()"
  shows "run_all_loop w kw ps = (Inr (), concat (map (\<lambda>p. snd (run_all_iteration w kw p)) ps))"
  using assms
proof (induction ps)
  case Nil
  then show ?case by (simp add: io_ret_def)
next
  case (Cons p ps)
  then have "fst (run_all_iteration w kw p) = Inr ()" by simp
  then obtain tr where "run_all_iteration w kw p = (Inr (), tr)"
    by (cases "run_all_iteration w kw p") simp
  with Cons show ?case by (simp add: io_bind_def)
qed

theorem C5_run_all_continues:
  assumes "\<forall>p \<in> set get_available_platforms.
             \<forall>e. fst (run_single_platform w p kw) = Inl e \<longrightarrow> is_Exception e"
  shows "fst (run_all_platforms w kw) = Inr () \<and>
         snd (run_all_platforms w kw) =
           Print ''Running agents for all platforms: bumble, tinder, hinge, okcupid''
           # concat (map (\<lambda>p. snd (run_all_iteration w kw p))
                [''bumble'', ''tinder'', ''hinge'', ''okcupid'']) \<and>
         (\<forall>p \<in> set [''bumble'', ''tinder'', ''hinge'', ''okcupid''].
            fst (run_all_iteration w kw p) = Inr () \<and>
            snd (run_all_iteration w kw p) =
              [Print (CHR 0x0A # replicate 50 (CHR ''='')),
               Print (''Starting '' @ upper p @ '' agent...''),
               Print (replicate 50 (CHR ''=''))]
              @ snd (run_single_platform w p kw)
              @ (case fst (run_single_platform w p kw) of
                   Inl e \<Rightarrow> [Print (''Error running '' @ upper p @ '' agent: '' @ exc_str e)]
                 | Inr u \<Rightarrow> [])
              @ [Print (CHR 0x0A # upper p @ '' agent session ended.'')])"
proof -
  have names: "get_available_platforms = [''bumble'', ''tinder'', ''hinge'', ''okcupid'']"
    by (simp add: get_available_platforms_def platforms_def)
  from assms have each: "\<forall>p \<in> set get_available_platforms.
      fst (run_all_iteration w kw p) = Inr () \<and>
      snd (run_all_iteration w kw p) =
        [Print (CHR 0x0A # replicate 50 (CHR ''='')),
         Print (''Starting '' @ upper p @ '' agent...''),
         Print (replicate 50 (CHR ''=''))]
        @ snd (run_single_platform w p kw)
        @ (case fst (run_single_platform w p kw) of
             Inl e \<Rightarrow> [Print (''Error running '' @ upper p @ '' agent: '' @ exc_str e)]
           | Inr u \<Rightarrow> [])
        @ [Print (CHR 0x0A # upper p @ '' agent session ended.'')]"
    using run_all_iteration_caught by blast
  then have "\<forall>p \<in> set get_available_platforms. fst (run_all_iteration w kw p) = Inr ()"
    by blast
  from run_all_loop_complete [OF this]
  have loop: "run_all_loop w kw get_available_platforms =
      (Inr (), concat (map (\<lambda>p. snd (run_all_iteration w kw p)) get_available_platforms))" .
  have header: "join '', '' get_available_platforms = ''bumble, tinder, hinge, okcupid''"
    by (simp add: names)
  from loop header have "run_all_platforms w kw =
      (Inr (), Print ''Running agents for all platforms: bumble, tinder, hinge, okcupid''
           # concat (map (\<lambda>p. snd (run_all_iteration w kw p)) get_available_platforms))"
    by (simp add: run_all_platforms_def io_bind_def io_emit_def)
  with each show ?thesis unfolding names by simp
qed


theorem C5_run_all_continues_witness:
  "fst (run_single_platform failing_world ''bumble'' Map.empty) = Inr () \<and>
   fst (run_single_platform failing_world ''tinder'' Map.empty) = Inl (Exc RuntimeError ''agent failed'') \<and>
   fst (run_single_platform failing_world ''hinge'' Map.empty) = Inl (Exc RuntimeError ''timeout'') \<and>
   fst (run_single_platform failing_world ''okcupid'' Map.empty) = Inr () \<and>
   fst (run_all_platforms failing_world Map.empty) = Inr () \<and>
   snd (run_all_platforms failing_world Map.empty) =
     Print ''Running agents for all platforms: bumble, tinder, hinge, okcupid''
     # concat (map (\<lambda>p. snd (run_all_iteration failing_world Map.empty p))
          [''bumble'', ''tinder'', ''hinge'', ''okcupid''])"
proof -
  have b: "fst (run_single_platform failing_world ''bumble'' Map.empty) = Inr ()"
    by (simp add: factory_defs platform_defs loader_defs io_defs string_defs world_defs)
  have t: "fst (run_single_platform failing_world ''tinder'' Map.empty) = Inl (Exc RuntimeError ''agent failed'')"
    by (simp add: factory_defs platform_defs loader_defs io_defs string_defs world_defs)
  have h: "fst (run_single_platform failing_world ''hinge'' Map.empty) = Inl (Exc RuntimeError ''timeout'')"
    by (simp add: factory_defs platform_defs loader_defs io_defs string_defs world_defs)
  have k: "fst (run_single_platform failing_world ''okcupid'' Map.empty) = Inr ()"
    by (simp add: factory_defs platform_defs loader_defs io_defs string_defs world_defs)
  have names: "get_available_platforms = [''bumble'', ''tinder'', ''hinge'', ''okcupid'']"
    by (simp add: get_available_platforms_def platforms_def)
  from b t h k have hyp: "\<forall>p \<in> set get_available_platforms.
      \<forall>e. fst (run_single_platform failing_world p Map.empty) = Inl e \<longrightarrow> is_Exception e"
    by (simp add: names is_Exception_def)
  from C5_run_all_continues [OF hyp] b t h k show ?thesis by blast
qed

end
